theory Spec2Isabelle
  imports Complex_Main "HOL-Library.Multiset"
begin

section \<open>Floating-point values\<close>

text \<open>
  Python floats are modelled as exact rationals extended with the three special values of
  IEEE 754. Rounding, overflow to infinity and the sign of zero are not represented: a
  \<open>Finite\<close> value stands for the real number the double approximates.
\<close>

datatype pyfloat = Finite rat | PosInf | NegInf | NaN

fun fneg :: "pyfloat \<Rightarrow> pyfloat" where
  "fneg (Finite r) = Finite (- r)"
| "fneg PosInf = NegInf"
| "fneg NegInf = PosInf"
| "fneg NaN = NaN"

text \<open>\<open>x > 0\<close> on floats: false for NaN.\<close>

fun fgt0 :: "pyfloat \<Rightarrow> bool" where
  "fgt0 (Finite r) = (0 < r)"
| "fgt0 PosInf = True"
| "fgt0 NegInf = False"
| "fgt0 NaN = False"

section \<open>The builtin \<open>float(str)\<close>\<close>

text \<open>
  \<open>float\<close> strips surrounding whitespace, removes underscores that stand between two
  digits (any other underscore is an error), and then reads an optional sign followed by
  \<open>inf\<close>, \<open>infinity\<close>, \<open>nan\<close> (in any case) or a decimal number with an optional
  fraction and an optional exponent. \<open>None\<close> stands for \<open>ValueError\<close>. Strings are
  ASCII here.
\<close>

definition is_digit :: "char \<Rightarrow> bool" where
  "is_digit c = (c \<in> set ''0123456789'')"

definition digit_val :: "char \<Rightarrow> nat" where
  "digit_val c = of_char c - 48"

definition is_space :: "char \<Rightarrow> bool" where
  "is_space c = (let n = (of_char c :: nat) in (9 \<le> n \<and> n \<le> 13) \<or> (28 \<le> n \<and> n \<le> 32))"

definition to_lower :: "char \<Rightarrow> char" where
  "to_lower c = (let n = (of_char c :: nat) in if 65 \<le> n \<and> n \<le> 90 then char_of (n + 32) else c)"

definition strip :: "string \<Rightarrow> string" where
  "strip s = rev (dropWhile is_space (rev (dropWhile is_space s)))"

fun strip_underscores :: "char \<Rightarrow> string \<Rightarrow> string option" where
  "strip_underscores prev [] = (if prev = CHR ''_'' then None else Some [])"
| "strip_underscores prev (c # cs) =
     (if c = CHR ''_'' then (if is_digit prev then strip_underscores c cs else None)
      else if prev = CHR ''_'' \<and> \<not> is_digit c then None
      else map_option ((#) c) (strip_underscores c cs))"

definition digits_val :: "string \<Rightarrow> nat" where
  "digits_val ds = foldl (\<lambda>a c. 10 * a + digit_val c) 0 ds"

definition parse_exponent :: "string \<Rightarrow> int option" where
  "parse_exponent s =
     (case s of
        [] \<Rightarrow> None
      | c # cs \<Rightarrow>
          (let neg = (c = CHR ''-'');
               ds = (if c = CHR ''-'' \<or> c = CHR ''+'' then cs else s)
           in if ds \<noteq> [] \<and> list_all is_digit ds
              then Some (if neg then - int (digits_val ds) else int (digits_val ds))
              else None))"

definition scale10 :: "rat \<Rightarrow> int \<Rightarrow> rat" where
  "scale10 m k = (if 0 \<le> k then m * 10 ^ nat k else m / 10 ^ nat (- k))"

definition parse_decimal :: "string \<Rightarrow> rat option" where
  "parse_decimal s =
     (let ip = takeWhile is_digit s;
          r1 = dropWhile is_digit s;
          fp = (case r1 of c # r \<Rightarrow> if c = CHR ''.'' then takeWhile is_digit r else [] | [] \<Rightarrow> []);
          r2 = (case r1 of c # r \<Rightarrow> if c = CHR ''.'' then dropWhile is_digit r else r1 | [] \<Rightarrow> [])
      in if ip = [] \<and> fp = [] then None
         else
           (let mant = rat_of_nat (digits_val (ip @ fp)) / 10 ^ length fp
            in case r2 of
                 [] \<Rightarrow> Some mant
               | e # r3 \<Rightarrow>
                   if e = CHR ''e'' \<or> e = CHR ''E''
                   then map_option (scale10 mant) (parse_exponent r3)
                   else None))"

definition parse_unsigned :: "string \<Rightarrow> pyfloat option" where
  "parse_unsigned s =
     (let l = map to_lower s
      in if l = ''inf'' \<or> l = ''infinity'' then Some PosInf
         else if l = ''nan'' then Some NaN
         else map_option Finite (parse_decimal s))"

definition parse_signed :: "string \<Rightarrow> pyfloat option" where
  "parse_signed s =
     (case s of
        [] \<Rightarrow> None
      | c # cs \<Rightarrow>
          if c = CHR ''-'' then map_option fneg (parse_unsigned cs)
          else if c = CHR ''+'' then parse_unsigned cs
          else parse_unsigned s)"

definition py_float :: "string \<Rightarrow> pyfloat option" where
  "py_float s =
     (case strip_underscores (CHR 0x00) (strip s) of
        None \<Rightarrow> None
      | Some t \<Rightarrow> parse_signed t)"

text \<open>\<open>s.replace(c, "")\<close> for a one-character pattern.\<close>

definition replace_char :: "char \<Rightarrow> string \<Rightarrow> string" where
  "replace_char c s = filter (\<lambda>x. x \<noteq> c) s"

text \<open>The price expression of \<open>scrape_page\<close>:
  \<open>float(price_text.replace("$", "").replace(",", ""))\<close>.\<close>

definition parse_price :: "string \<Rightarrow> pyfloat option" where
  "parse_price price_text = py_float (replace_char CHR '','' (replace_char CHR ''$'' price_text))"

section \<open>MarketplaceScraper\<close>

text \<open>
  BeautifulSoup is not part of the repository. A candidate block (one
  \<open>div class="item-class"\<close>) is represented by what the three lookups of the loop body
  return on it:
  \<^item> \<open>h2_text\<close>: the stripped text of the first \<open>h2\<close>, \<open>None\<close> when there is none;
  \<^item> \<open>price_span\<close>: the stripped text of the first \<open>span class="price-class"\<close>,
    \<open>None\<close> when \<open>find\<close> returns \<open>None\<close>;
  \<^item> \<open>anchor\<close>: \<open>None\<close> when there is no \<open>a\<close> element, \<open>Some None\<close> when the first
    one has no \<open>href\<close> attribute, \<open>Some (Some h)\<close> otherwise.
\<close>

record listing_block =
  h2_text :: "string option"
  price_span :: "string option"
  anchor :: "string option option"

datatype py_exception = AttributeError | ValueError | TypeError | KeyError

type_synonym item = "string \<times> pyfloat \<times> string"

text \<open>
  The body of the inner \<open>try\<close>. \<open>None.get_text\<close> raises \<open>AttributeError\<close>, \<open>float\<close>
  raises \<open>ValueError\<close>, \<open>None["href"]\<close> raises \<open>TypeError\<close>, and subscripting a tag
  by an attribute it lacks raises \<open>KeyError\<close>. \<open>Inr None\<close> is a candidate that the
  \<open>all([...])\<close> test rejects.
\<close>

definition parse_listing :: "listing_block \<Rightarrow> py_exception + item option" where
  "parse_listing listing =
     (let title = (case h2_text listing of Some t \<Rightarrow> t | None \<Rightarrow> ''N/A'')
      in case price_span listing of
           None \<Rightarrow> Inl AttributeError
         | Some price_text \<Rightarrow>
             (case parse_price price_text of
                None \<Rightarrow> Inl ValueError
              | Some price \<Rightarrow>
                  (case anchor listing of
                     None \<Rightarrow> Inl TypeError
                   | Some None \<Rightarrow> Inl KeyError
                   | Some (Some link) \<Rightarrow>
                       Inr (if title \<noteq> ''N/A'' \<and> fgt0 price \<and> link \<noteq> []
                            then Some (title, price, link) else None))))"

text \<open>
  The \<open>for\<close> loop over the candidates: \<open>except (AttributeError, ValueError)\<close> continues
  with the next candidate, any other exception leaves the loop and the function.
\<close>

fun scrape_listings :: "listing_block list \<Rightarrow> item list \<Rightarrow> py_exception + item list" where
  "scrape_listings [] items = Inr items"
| "scrape_listings (listing # rest) items =
     (case parse_listing listing of
        Inr (Some it) \<Rightarrow> scrape_listings rest (items @ [it])
      | Inr None \<Rightarrow> scrape_listings rest items
      | Inl AttributeError \<Rightarrow> scrape_listings rest items
      | Inl ValueError \<Rightarrow> scrape_listings rest items
      | Inl e \<Rightarrow> Inl e)"

text \<open>
  The answer to one GET: \<open>RequestException\<close> covers a connection error, a timeout and the
  non-2xx status that \<open>raise_for_status\<close> turns into an exception; \<open>Page\<close> carries the
  candidate blocks that \<open>find_all\<close> returns, in document order.
\<close>

datatype http_response = RequestException | Page "listing_block list"

type_synonym web = "string \<Rightarrow> http_response"

definition scrape_page :: "web \<Rightarrow> string \<Rightarrow> py_exception + item list" where
  "scrape_page w url =
     (case w url of
        RequestException \<Rightarrow> Inr []
      | Page listings \<Rightarrow> scrape_listings listings [])"

text \<open>\<open>str\<close> of an integer, as the f-string formats \<open>page_num\<close>.\<close>

definition digit_char :: "nat \<Rightarrow> char" where
  "digit_char n = char_of (48 + n)"

fun nat_digits :: "nat \<Rightarrow> string" where
  "nat_digits n = (if n < 10 then [digit_char n] else nat_digits (n div 10) @ [digit_char (n mod 10)])"

declare nat_digits.simps [simp del]

definition py_str_int :: "int \<Rightarrow> string" where
  "py_str_int i = (if i < 0 then CHR ''-'' # nat_digits (nat (- i)) else nat_digits (nat i))"

definition page_url :: "string \<Rightarrow> int \<Rightarrow> string" where
  "page_url base_url page_num = base_url @ ''/page/'' @ py_str_int page_num"

text \<open>
  The effects of the fetch loop: the URLs requested so far, in order, and the seconds
  spent in \<open>time.sleep\<close>.
\<close>

record net_log =
  requested :: "string list"
  slept :: nat

definition no_traffic :: net_log where
  "no_traffic = \<lparr>requested = [], slept = 0\<rparr>"

fun scrape_pages ::
  "web \<Rightarrow> string \<Rightarrow> int list \<Rightarrow> net_log \<Rightarrow> item list \<Rightarrow> net_log \<times> (py_exception + item list)" where
  "scrape_pages w base_url [] lg all_items = (lg, Inr all_items)"
| "scrape_pages w base_url (page_num # rest) lg all_items =
     (let url = page_url base_url page_num;
          lg1 = lg\<lparr>requested := requested lg @ [url]\<rparr>
      in case scrape_page w url of
           Inl e \<Rightarrow> (lg1, Inl e)
         | Inr items \<Rightarrow>
             scrape_pages w base_url rest (lg1\<lparr>slept := slept lg1 + 1\<rparr>) (all_items @ items))"

text \<open>\<open>range(start_page, end_page + 1)\<close> is the integer interval \<open>[start_page..end_page]\<close>.\<close>

definition scrape_multiple_pages ::
  "web \<Rightarrow> string \<Rightarrow> int \<Rightarrow> int \<Rightarrow> net_log \<times> (py_exception + item list)" where
  "scrape_multiple_pages w base_url start_page end_page =
     scrape_pages w base_url [start_page..end_page] no_traffic []"

section \<open>DatabaseManager\<close>

text \<open>
  A row of the table \<open>assets\<close>. The type of the price is a parameter: the table holds
  floats as SQLite stores them, the analyzer works on a frame of finite prices.
  \<open>date_added\<close> is a time stamp in seconds.
\<close>

record 'p stored_asset =
  row_id :: int
  title :: string
  price :: 'p
  link :: string
  date_added :: nat

text \<open>
  One element of the batch given to \<open>executemany\<close>: a tuple \<open>(title, price, link)\<close>
  each of whose fields may be Python's \<open>None\<close>, bound as SQL \<open>NULL\<close>.
\<close>

type_synonym listing = "string option \<times> pyfloat option \<times> string option"

datatype sqlite_error = IntegrityError | OperationalError

text \<open>
  The connection, which is open throughout (the application never calls \<open>close\<close>):
  \<open>committed\<close> is the table as of the last commit, \<open>current\<close> the table as this
  connection sees it, which includes the rows of a transaction that has not ended.
\<close>

record connection =
  committed :: "pyfloat stored_asset list"
  current :: "pyfloat stored_asset list"

text \<open>
  What the model takes from outside: whether the commit of this call fails (a full disk,
  a locked file), and the value of \<open>CURRENT_TIMESTAMP\<close> when the row with a given id is
  written.
\<close>

record sqlite_env =
  commit_fails :: bool
  clock :: "int \<Rightarrow> nat"

definition max_rowid :: int where
  "max_rowid = 9223372036854775807"

text \<open>
  \<open>id INTEGER PRIMARY KEY\<close> is the rowid: a row inserted without an id gets 1 in an empty
  table and otherwise one more than the largest id in the table. When the largest id is
  the largest 64-bit integer SQLite looks for an unused id at random and may give up with
  \<open>SQLITE_FULL\<close>; the search is not modelled and the insert fails.
\<close>

definition new_rowid :: "'p stored_asset list \<Rightarrow> int option" where
  "new_rowid rows =
     (if rows = [] then Some 1
      else (let m = Max (set (map row_id rows))
            in if m < max_rowid then Some (m + 1) else None))"

text \<open>A NaN is bound as \<open>NULL\<close>.\<close>

definition bind_real :: "pyfloat option \<Rightarrow> pyfloat option" where
  "bind_real p = (case p of Some NaN \<Rightarrow> None | _ \<Rightarrow> p)"

text \<open>
  One execution of \<open>INSERT INTO assets (title, price, link) VALUES (?, ?, ?)\<close>: the three
  columns are \<open>NOT NULL\<close>.
\<close>

definition insert_row ::
  "(int \<Rightarrow> nat) \<Rightarrow> pyfloat stored_asset list \<Rightarrow> listing \<Rightarrow> sqlite_error + pyfloat stored_asset list" where
  "insert_row clk rows a =
     (case new_rowid rows of
        None \<Rightarrow> Inl OperationalError
      | Some i \<Rightarrow>
          (case a of (t, p, l) \<Rightarrow>
             (case (t, bind_real p, l) of
                (Some t', Some p', Some l') \<Rightarrow>
                  Inr (rows @ [\<lparr>row_id = i, title = t', price = p', link = l', date_added = clk i\<rparr>])
              | _ \<Rightarrow> Inl IntegrityError)))"

text \<open>
  \<open>executemany\<close> runs the statement once per element and stops at the first error; the
  rows written before the error stay in the open transaction.
\<close>

fun executemany ::
  "(int \<Rightarrow> nat) \<Rightarrow> pyfloat stored_asset list \<Rightarrow> listing list \<Rightarrow> pyfloat stored_asset list \<times> sqlite_error option" where
  "executemany clk rows [] = (rows, None)"
| "executemany clk rows (a # assets) =
     (case insert_row clk rows a of
        Inl e \<Rightarrow> (rows, Some e)
      | Inr rows' \<Rightarrow> executemany clk rows' assets)"

definition commit :: "bool \<Rightarrow> connection \<Rightarrow> sqlite_error + connection" where
  "commit fails conn = (if fails then Inl OperationalError else Inr (conn\<lparr>committed := current conn\<rparr>))"

definition rollback :: "connection \<Rightarrow> connection" where
  "rollback conn = conn\<lparr>current := committed conn\<rparr>"

text \<open>\<open>setup_database\<close> on a new file: the table exists and is empty.\<close>

definition setup_database :: connection where
  "setup_database = \<lparr>committed = [], current = []\<rparr>"

text \<open>
  \<open>insert_assets\<close>: every \<open>sqlite3.Error\<close> of \<open>executemany\<close> and of \<open>commit\<close> is caught
  by the handler, which rolls back and returns \<open>False\<close>.
\<close>

definition insert_assets :: "sqlite_env \<Rightarrow> connection \<Rightarrow> listing list \<Rightarrow> connection \<times> bool" where
  "insert_assets env conn assets =
     (case executemany (clock env) (current conn) assets of
        (rows, Some e) \<Rightarrow> (rollback (conn\<lparr>current := rows\<rparr>), False)
      | (rows, None) \<Rightarrow>
          (case commit (commit_fails env) (conn\<lparr>current := rows\<rparr>) of
             Inl e \<Rightarrow> (rollback (conn\<lparr>current := rows\<rparr>), False)
           | Inr conn' \<Rightarrow> (conn', True)))"

text \<open>\<open>SELECT * FROM assets\<close> scans the table in the order of the row ids.\<close>

definition get_all_assets :: "connection \<Rightarrow> pyfloat stored_asset list" where
  "get_all_assets conn = sort_key row_id (current conn)"

text \<open>The tuple a stored row was made from.\<close>

definition listing_of :: "pyfloat stored_asset \<Rightarrow> listing" where
  "listing_of r = (Some (title r), Some (price r), Some (link r))"

text \<open>
  What a page yields when no candidate makes the loop raise: the items of the candidates
  that the body accepts, in document order.
\<close>

definition accepted :: "listing_block list \<Rightarrow> item list" where
  "accepted listings =
     concat (map (\<lambda>b. case parse_listing b of Inr (Some it) \<Rightarrow> [it] | _ \<Rightarrow> []) listings)"

text \<open>A candidate whose exception the inner handler does not catch.\<close>

definition raises :: "listing_block \<Rightarrow> bool" where
  "raises b = (parse_listing b = Inl TypeError \<or> parse_listing b = Inl KeyError)"

subsection \<open>Sample pages\<close>

definition lamp_block :: listing_block where
  "lamp_block = \<lparr>h2_text = Some ''Lamp'', price_span = Some ''$5.00'', anchor = Some (Some ''/lamp'')\<rparr>"

definition desk_block :: listing_block where
  "desk_block = \<lparr>h2_text = Some ''Desk'', price_span = Some ''$1,234.50'', anchor = Some (Some ''/desk'')\<rparr>"

text \<open>A candidate with a title and a price but no \<open>a\<close> element.\<close>

definition vase_block :: listing_block where
  "vase_block = \<lparr>h2_text = Some ''Vase'', price_span = Some ''$7.00'', anchor = None\<rparr>"

text \<open>A candidate without a price element.\<close>

definition unpriced_block :: listing_block where
  "unpriced_block = \<lparr>h2_text = Some ''Rug'', price_span = None, anchor = Some (Some ''/rug'')\<rparr>"

text \<open>A marketplace of three pages; the second holds the candidate without a link.\<close>

definition shop :: web where
  "shop url =
     (if url = ''https://example-marketplace.com/page/1'' then Page [lamp_block]
      else if url = ''https://example-marketplace.com/page/2'' then Page [vase_block]
      else if url = ''https://example-marketplace.com/page/3'' then Page [desk_block]
      else RequestException)"

section \<open>AssetAnalyzer\<close>

subsection \<open>Float arithmetic and comparison\<close>

text \<open>
  The operations of the discount expression, with the IEEE rules for infinities and NaN.
  A finite zero counts as positive zero.
\<close>

fun fadd :: "pyfloat \<Rightarrow> pyfloat \<Rightarrow> pyfloat" where
  "fadd NaN y = NaN"
| "fadd x NaN = NaN"
| "fadd (Finite a) (Finite b) = Finite (a + b)"
| "fadd PosInf NegInf = NaN"
| "fadd NegInf PosInf = NaN"
| "fadd PosInf y = PosInf"
| "fadd NegInf y = NegInf"
| "fadd (Finite a) y = y"

definition fsub :: "pyfloat \<Rightarrow> pyfloat \<Rightarrow> pyfloat" where
  "fsub x y = fadd x (fneg y)"

text \<open>The sign of a float that is not NaN: \<open>1\<close>, \<open>0\<close> or \<open>-1\<close>.\<close>

fun fsign :: "pyfloat \<Rightarrow> int" where
  "fsign (Finite r) = (if 0 < r then 1 else if r < 0 then - 1 else 0)"
| "fsign PosInf = 1"
| "fsign NegInf = - 1"
| "fsign NaN = 0"

definition signed_inf :: "int \<Rightarrow> pyfloat" where
  "signed_inf s = (if 0 < s then PosInf else if s < 0 then NegInf else NaN)"

fun fmul :: "pyfloat \<Rightarrow> pyfloat \<Rightarrow> pyfloat" where
  "fmul NaN y = NaN"
| "fmul x NaN = NaN"
| "fmul (Finite a) (Finite b) = Finite (a * b)"
| "fmul x y = signed_inf (fsign x * fsign y)"

fun fdiv :: "pyfloat \<Rightarrow> pyfloat \<Rightarrow> pyfloat" where
  "fdiv NaN y = NaN"
| "fdiv x NaN = NaN"
| "fdiv (Finite a) (Finite b) = (if b \<noteq> 0 then Finite (a / b) else signed_inf (fsign (Finite a)))"
| "fdiv (Finite a) y = Finite 0"
| "fdiv x (Finite b) = signed_inf (fsign x * (if b < 0 then - 1 else 1))"
| "fdiv x y = NaN"

text \<open>\<open>x < y\<close> on floats: false when either side is NaN.\<close>

fun flt :: "pyfloat \<Rightarrow> pyfloat \<Rightarrow> bool" where
  "flt NaN y = False"
| "flt x NaN = False"
| "flt (Finite a) (Finite b) = (a < b)"
| "flt x PosInf = (x \<noteq> PosInf)"
| "flt NegInf y = (y \<noteq> NegInf)"
| "flt x y = False"

subsection \<open>The pandas operations the analyzer calls\<close>

text \<open>
  pandas is not part of the repository. The column \<open>df["price"]\<close> is a list of finite
  prices, in row order.

  \<open>Series.mean\<close>: NaN on an empty column.
\<close>

definition series_mean :: "rat list \<Rightarrow> pyfloat" where
  "series_mean xs = (if xs = [] then NaN else Finite (sum_list xs / rat_of_nat (length xs)))"

text \<open>
  \<open>Series.quantile(q)\<close> with the default linear interpolation: on the sorted column
  \<open>s\<close> of length \<open>n\<close> the position is \<open>h = (n - 1) * q\<close>, and the result lies between
  \<open>s[floor h]\<close> and \<open>s[ceiling h]\<close> in proportion to the fractional part of \<open>h\<close>.
  \<open>q\<close> outside \<open>[0, 1]\<close> raises \<open>ValueError\<close>; an empty column gives NaN.
\<close>

definition interpolate :: "rat list \<Rightarrow> rat \<Rightarrow> rat" where
  "interpolate s q =
     (let h = rat_of_nat (length s - 1) * q;
          lo = nat \<lfloor>h\<rfloor>;
          hi = nat \<lceil>h\<rceil>
      in s ! lo + (s ! hi - s ! lo) * (h - rat_of_nat lo))"

definition quantile :: "rat list \<Rightarrow> rat \<Rightarrow> py_exception + pyfloat" where
  "quantile xs q =
     (if q < 0 \<or> 1 < q then Inl ValueError
      else if xs = [] then Inr NaN
      else Inr (Finite (interpolate (sort xs) q)))"

text \<open>A row of the result: a stored asset with its \<open>discount_percent\<close>.\<close>

record 'p undervalued_asset = "'p stored_asset" +
  discount_percent :: pyfloat

definition annotate :: "rat stored_asset \<Rightarrow> pyfloat \<Rightarrow> rat undervalued_asset" where
  "annotate a d =
     \<lparr>row_id = row_id a, title = title a, price = price a, link = link a,
      date_added = date_added a, discount_percent = d\<rparr>"

definition asset_of :: "rat undervalued_asset \<Rightarrow> rat stored_asset" where
  "asset_of u =
     \<lparr>row_id = row_id u, title = title u, price = price u, link = link u,
      date_added = date_added u\<rparr>"

text \<open>
  \<open>sort_values("discount_percent", ascending=False)\<close> is called with the default
  \<open>kind='quicksort'\<close> and \<open>na_position='last'\<close>. pandas documents that kind as not
  stable, so the analyzer takes the sort as a parameter, and what is known of it is its
  contract: the result is a permutation of the rows in which no row stands before a row
  with a larger key, and the rows whose key is NaN come last.
\<close>

type_synonym sort_values = "rat undervalued_asset list \<Rightarrow> rat undervalued_asset list"

text \<open>\<open>precedes x y\<close>: a row with key \<open>x\<close> may stand before a row with key \<open>y\<close>.\<close>

definition precedes :: "pyfloat \<Rightarrow> pyfloat \<Rightarrow> bool" where
  "precedes x y = (y = NaN \<or> (x \<noteq> NaN \<and> \<not> flt x y))"

definition sorted_descending :: "rat undervalued_asset list \<Rightarrow> bool" where
  "sorted_descending rows = sorted_wrt (\<lambda>a b. precedes (discount_percent a) (discount_percent b)) rows"

definition sorts_descending :: "sort_values \<Rightarrow> bool" where
  "sorts_descending srt = (\<forall>rows. mset (srt rows) = mset rows \<and> sorted_descending (srt rows))"

text \<open>Two sorts that meet the contract: a stable insertion sort, and the same sort run on
  the reversed frame, which returns rows of equal key in reverse input order.\<close>

fun insert_row_desc :: "rat undervalued_asset \<Rightarrow> rat undervalued_asset list \<Rightarrow> rat undervalued_asset list" where
  "insert_row_desc x [] = [x]"
| "insert_row_desc x (y # ys) =
     (if precedes (discount_percent x) (discount_percent y) then x # y # ys
      else y # insert_row_desc x ys)"

definition stable_sort_values :: sort_values where
  "stable_sort_values rows = foldr insert_row_desc rows []"

definition reversing_sort_values :: sort_values where
  "reversing_sort_values rows = stable_sort_values (rev rows)"

subsection \<open>\<open>identify_undervalued_assets\<close>\<close>

text \<open>The discount expression \<open>(mean - price) / mean * 100\<close>.\<close>

definition discount :: "pyfloat \<Rightarrow> rat \<Rightarrow> pyfloat" where
  "discount mean p = fmul (fdiv (fsub mean (Finite p)) mean) (Finite 100)"

text \<open>
  A frame is the list of its rows; the empty \<open>pd.DataFrame()\<close> and a frame with columns
  and no rows are both \<open>[]\<close>.
\<close>

definition identify_undervalued_assets ::
  "sort_values \<Rightarrow> rat stored_asset list \<Rightarrow> rat \<Rightarrow> py_exception + rat undervalued_asset list" where
  "identify_undervalued_assets srt df threshold_percentile =
     (if df = [] then Inr []
      else
        (case quantile (map price df) (threshold_percentile / 100) of
           Inl e \<Rightarrow> Inl e
         | Inr price_threshold \<Rightarrow>
             (let undervalued = filter (\<lambda>a. flt (Finite (price a)) price_threshold) df;
                  mean = series_mean (map price df)
              in Inr (srt (map (\<lambda>a. annotate a (discount mean (price a))) undervalued)))))"

subsection \<open>Sample frames\<close>

definition asset :: "int \<Rightarrow> rat \<Rightarrow> rat stored_asset" where
  "asset i p = \<lparr>row_id = i, title = ''item'', price = p, link = ''/item'', date_added = 0\<rparr>"

definition five_assets :: "rat stored_asset list" where
  "five_assets = [asset 1 10, asset 2 20, asset 3 30, asset 4 40, asset 5 100]"

text \<open>Two assets of equal price, hence of equal discount, before a dearer one.\<close>

definition tied_assets :: "rat stored_asset list" where
  "tied_assets = [asset 1 10, asset 2 10, asset 3 40]"

subsection \<open>Sample store states and batches\<close>

definition wall_clock :: sqlite_env where
  "wall_clock = \<lparr>commit_fails = False, clock = (\<lambda>i. 1700000000 + nat i)\<rparr>"

definition good_batch :: "listing list" where
  "good_batch =
     [(Some ''Lamp'', Some (Finite 5), Some ''/lamp''),
      (Some ''Desk'', Some (Finite 9), Some ''/desk'')]"

text \<open>A batch whose second element has no title.\<close>

definition bad_batch :: "listing list" where
  "bad_batch =
     [(Some ''Lamp'', Some (Finite 5), Some ''/lamp''),
      (None, Some (Finite 7), Some ''/vase''),
      (Some ''Desk'', Some (Finite 9), Some ''/desk'')]"

definition rug_row :: "pyfloat stored_asset" where
  "rug_row = \<lparr>row_id = 1, title = ''Rug'', price = Finite 3, link = ''/rug'', date_added = 1700000001\<rparr>"

definition one_row_store :: connection where
  "one_row_store = \<lparr>committed = [rug_row], current = [rug_row]\<rparr>"

text \<open>The store after \<open>good_batch\<close> has been inserted into a new database.\<close>

definition two_row_store :: connection where
  "two_row_store =
     (let rows = [\<lparr>row_id = 1, title = ''Lamp'', price = Finite 5, link = ''/lamp'', date_added = 1700000001\<rparr>,
                  \<lparr>row_id = 2, title = ''Desk'', price = Finite 9, link = ''/desk'', date_added = 1700000002\<rparr>]
      in \<lparr>committed = rows, current = rows\<rparr>)"

section \<open>Properties of the scraper\<close>

lemma parse_listing_accepts:
  "parse_listing b = Inr (Some (t, p, l)) \<Longrightarrow>
     h2_text b = Some t \<and> t \<noteq> ''N/A'' \<and> fgt0 p \<and> l \<noteq> [] \<and> anchor b = Some (Some l)"
  by (auto simp: parse_listing_def Let_def split: option.splits if_splits)

lemma scrape_listings_missing_price:
  "price_span b = None \<Longrightarrow>
     scrape_listings (pre @ b # post) items = scrape_listings (pre @ post) items"
proof (induction pre arbitrary: items)
  case Nil
  then show ?case by (simp add: parse_listing_def)
next
  case (Cons a pre)
  then show ?case
    by (simp split: sum.splits option.splits py_exception.splits)
qed

text \<open>
  When no candidate of a page raises an exception that the handler lets through, the page
  yields the accepted candidates in document order, and every accepted item has a title
  other than the placeholder, a positive price and a non-empty link.
\<close>

lemma scrape_listings_no_raise:
  "\<forall>b\<in>set listings. \<not> raises b \<Longrightarrow>
     scrape_listings listings items = Inr (items @ accepted listings)"
proof (induction listings arbitrary: items)
  case Nil
  then show ?case by (simp add: accepted_def)
next
  case (Cons b listings)
  then show ?case
    by (simp add: accepted_def raises_def split: sum.splits option.splits py_exception.splits)
qed

lemma accepted_valid:
  assumes "(t, p, l) \<in> set (accepted listings)"
  shows "t \<noteq> ''N/A'' \<and> fgt0 p \<and> l \<noteq> []"
proof -
  from assms obtain b where "parse_listing b = Inr (Some (t, p, l))"
    by (auto simp: accepted_def split: sum.splits option.splits)
  from parse_listing_accepts [OF this] show ?thesis by simp
qed

text \<open>
  When the extraction raises on no page of the range, every page of the range is requested
  in increasing order and the result is the concatenation of the pages' items; a page
  whose request fails contributes nothing.
\<close>

lemma scrape_page_request_failed: "w url = RequestException \<Longrightarrow> scrape_page w url = Inr []"
  by (simp add: scrape_page_def)

lemma scrape_pages_no_raise:
  assumes "\<forall>n\<in>set ns. \<exists>items. scrape_page w (page_url base_url n) = Inr items"
  shows "scrape_pages w base_url ns lg all_items =
          (lg\<lparr>requested := requested lg @ map (page_url base_url) ns, slept := slept lg + length ns\<rparr>,
           Inr (all_items @ concat (map (\<lambda>n. projr (scrape_page w (page_url base_url n))) ns)))"
  using assms
proof (induction ns arbitrary: lg all_items)
  case Nil
  then show ?case by simp
next
  case (Cons n ns)
  from Cons.prems obtain items where items: "scrape_page w (page_url base_url n) = Inr items"
    by auto
  from Cons.prems have rest: "\<forall>n\<in>set ns. \<exists>items. scrape_page w (page_url base_url n) = Inr items"
    by simp
  show ?case
    by (simp add: items Let_def Cons.IH [OF rest])
qed

text \<open>
  Claim C5 (extract returns the N well-formed candidates of a page and never raises; a
  malformed candidate is skipped and the rest of the page is processed). The code does
  not do this: on a page of two well-formed candidates around one that has a title and a
  price but no link element, \<open>None["href"]\<close> raises \<open>TypeError\<close>, which neither handler
  catches, and \<open>scrape_page\<close> raises instead of returning the two listings.
\<close>

theorem scrape_page_raises_on_missing_link:
  "scrape_page (\<lambda>u. Page [lamp_block, vase_block, desk_block])
     ''https://example-marketplace.com/page/1'' = Inl TypeError"
  by code_simp

lemma parse_price_example: "parse_price ''$1,234.50'' = Some (Finite (2469 / 2))"
  by (simp add: parse_price_def replace_char_def py_float_def strip_def is_space_def
      parse_signed_def parse_unsigned_def to_lower_def parse_decimal_def is_digit_def
      digits_val_def digit_val_def Let_def)

lemma scrape_page_missing_price:
  "price_span b = None \<Longrightarrow>
     scrape_page (w(url := Page (pre @ b # post))) url = scrape_page (w(url := Page (pre @ post))) url"
  unfolding scrape_page_def
  by (simp only: fun_upd_same http_response.case scrape_listings_missing_price)

text \<open>
  Claim C6 (price parsing strips the currency symbol and the group separators:
  \<open>"$1,234.50"\<close> is parsed as \<open>1234.50\<close>; a candidate whose price element is missing is
  dropped and the rest of the page is still processed). A page with such a candidate
  gives exactly what the page without it gives.
\<close>

theorem price_parsing_and_missing_price:
  "parse_price ''$1,234.50'' = Some (Finite (2469 / 2)) \<and>
   (price_span b = None \<longrightarrow>
      scrape_page (w(url := Page (pre @ b # post))) url
        = scrape_page (w(url := Page (pre @ post))) url)"
proof (rule conjI)
  show "parse_price ''$1,234.50'' = Some (Finite (2469 / 2))"
    by (rule parse_price_example)
  show "price_span b = None \<longrightarrow>
      scrape_page (w(url := Page (pre @ b # post))) url
        = scrape_page (w(url := Page (pre @ post))) url"
    by (rule impI) (rule scrape_page_missing_price)
qed

theorem price_parsing_and_missing_price_witness:
  "price_span unpriced_block = None \<and>
   scrape_page (shop(''u'' := Page ([lamp_block] @ unpriced_block # [desk_block]))) ''u''
     = scrape_page (shop(''u'' := Page ([lamp_block] @ [desk_block]))) ''u''"
proof -
  have h: "price_span unpriced_block = None"
    by (simp add: unpriced_block_def)
  from price_parsing_and_missing_price [of unpriced_block shop "''u''" "[lamp_block]" "[desk_block]"]
  have "price_span unpriced_block = None \<longrightarrow>
      scrape_page (shop(''u'' := Page ([lamp_block] @ unpriced_block # [desk_block]))) ''u''
        = scrape_page (shop(''u'' := Page ([lamp_block] @ [desk_block]))) ''u''"
    by (rule conjunct2)
  from this h
  have "scrape_page (shop(''u'' := Page ([lamp_block] @ unpriced_block # [desk_block]))) ''u''
     = scrape_page (shop(''u'' := Page ([lamp_block] @ [desk_block]))) ''u''"
    by (rule mp)
  from h this show ?thesis by (rule conjI)
qed

text \<open>
  Claim C9 (for \<open>start \<le> end\<close>, fetchRange fetches the pages \<open>start..end\<close> in increasing
  order and returns the concatenation of their results; a failed request contributes
  nothing). The code does not do this on every range: when the second of three pages
  holds a candidate with a price and no link element, the \<open>TypeError\<close> of
  \<open>scrape_page\<close> leaves \<open>scrape_multiple_pages\<close> too, the third page is never requested
  and nothing is returned. This is the defect of claim C5.
\<close>

theorem scrape_multiple_pages_aborts_on_missing_link:
  "scrape_multiple_pages shop ''https://example-marketplace.com'' 1 3 =
     (\<lparr>requested = [''https://example-marketplace.com/page/1'',
                    ''https://example-marketplace.com/page/2''],
       slept = 1\<rparr>,
      Inl TypeError)"
  by code_simp

text \<open>
  Claim C10 (for \<open>start > end\<close>, fetchRange requests no page and returns the empty
  sequence).
\<close>

theorem scrape_multiple_pages_empty_range:
  "end_page < start_page \<Longrightarrow>
     scrape_multiple_pages w base_url start_page end_page = (no_traffic, Inr [])"
  by (simp add: scrape_multiple_pages_def)

theorem scrape_multiple_pages_empty_range_witness:
  "(1::int) < 3 \<and>
   scrape_multiple_pages shop ''https://example-marketplace.com'' 3 1 = (no_traffic, Inr [])"
  using scrape_multiple_pages_empty_range [of 1 3 shop "''https://example-marketplace.com''"]
  by simp

section \<open>Properties of the store\<close>

lemma bind_real_Some: "bind_real p = Some q \<Longrightarrow> p = Some q \<and> q \<noteq> NaN"
  by (auto simp: bind_real_def split: option.splits pyfloat.splits)

lemma insert_row_Inr:
  assumes "insert_row clk rows a = Inr rows1"
  shows "\<exists>r. rows1 = rows @ [r] \<and> listing_of r = a \<and> new_rowid rows = Some (row_id r)
             \<and> date_added r = clk (row_id r) \<and> price r \<noteq> NaN"
proof -
  obtain t p l where a: "a = (t, p, l)" by (cases a)
  from assms a obtain i t' p' l' where
    i: "new_rowid rows = Some i" and t: "t = Some t'" and p: "bind_real p = Some p'" and l: "l = Some l'"
    and r: "rows1 = rows @ [\<lparr>row_id = i, title = t', price = p', link = l', date_added = clk i\<rparr>]"
    by (auto simp: insert_row_def split: option.splits)
  from bind_real_Some [OF p] have "p = Some p'" "p' \<noteq> NaN" by simp_all
  with a i t l r show ?thesis by (simp add: listing_of_def)
qed

text \<open>\<open>executemany\<close> only appends, and when it succeeds it appends one row per element.\<close>

lemma executemany_prefix:
  "executemany clk rows assets = (rows', r) \<Longrightarrow> \<exists>new. rows' = rows @ new"
proof (induction assets arbitrary: rows)
  case Nil then show ?case by simp
next
  case (Cons a assets)
  show ?case
  proof (cases "insert_row clk rows a")
    case (Inl e)
    with Cons.prems show ?thesis by simp
  next
    case (Inr rows1)
    from insert_row_Inr [OF Inr] obtain x where x: "rows1 = rows @ [x]" by metis
    from Cons.prems Inr have "executemany clk rows1 assets = (rows', r)" by simp
    from Cons.IH [OF this] obtain new where "rows' = rows1 @ new" by metis
    with x have "rows' = rows @ (x # new)" by simp
    then show ?thesis ..
  qed
qed

lemma executemany_all:
  "executemany clk rows assets = (rows', None) \<Longrightarrow>
     \<exists>new. rows' = rows @ new \<and> map listing_of new = assets"
proof (induction assets arbitrary: rows)
  case Nil then show ?case by simp
next
  case (Cons a assets)
  show ?case
  proof (cases "insert_row clk rows a")
    case (Inl e)
    with Cons.prems show ?thesis by simp
  next
    case (Inr rows1)
    from insert_row_Inr [OF Inr] obtain x where x: "rows1 = rows @ [x]" "listing_of x = a" by metis
    from Cons.prems Inr have "executemany clk rows1 assets = (rows', None)" by simp
    from Cons.IH [OF this] obtain new where new: "rows' = rows1 @ new" "map listing_of new = assets"
      by metis
    have "rows' = rows @ (x # new) \<and> map listing_of (x # new) = a # assets"
      using x new by simp
    then show ?thesis ..
  qed
qed

text \<open>
  Claim C7 (insertBatch is atomic: either every listing of the batch is committed and the
  call returns true, or no listing of the batch is committed, the committed rows are
  unchanged and the call returns false; it never raises). \<open>insert_assets\<close> returns a
  state and a flag on every input; afterwards no transaction is open, on \<open>True\<close> the
  committed table is the table before the call followed by one row per listing, in the
  order of the batch, and on \<open>False\<close> the committed table is as before.
\<close>

theorem insert_assets_atomic:
  assumes "insert_assets env conn assets = (conn', ok)"
  shows "current conn' = committed conn' \<and>
     (if ok then \<exists>new. committed conn' = current conn @ new \<and> map listing_of new = assets
      else committed conn' = committed conn)"
proof -
  obtain rows r where ex: "executemany (clock env) (current conn) assets = (rows, r)"
    by (cases "executemany (clock env) (current conn) assets")
  show ?thesis
  proof (cases r)
    case (Some e)
    with ex assms have "conn' = rollback (conn\<lparr>current := rows\<rparr>)" "ok = False"
      by (simp_all add: insert_assets_def)
    then show ?thesis by (simp add: rollback_def)
  next
    case None
    from executemany_all [OF ex [unfolded None]] obtain new
      where new: "rows = current conn @ new" "map listing_of new = assets" by metis
    show ?thesis
    proof (cases "commit_fails env")
      case True
      with ex None assms have "conn' = rollback (conn\<lparr>current := rows\<rparr>)" "ok = False"
        by (simp_all add: insert_assets_def commit_def)
      then show ?thesis by (simp add: rollback_def)
    next
      case False
      with ex None assms have "conn' = conn\<lparr>current := rows, committed := rows\<rparr>" "ok = True"
        by (simp_all add: insert_assets_def commit_def)
      with new show ?thesis by simp
    qed
  qed
qed

end
